theory Spec2Isabelle
  imports Complex_Main "HOL-Library.List_Lexorder" "HOL-Library.Char_ord"
begin

section \<open>NYC Yellow Taxi dashboard: data model\<close>

text \<open>
  The script \<^verbatim>\<open>app.py\<close> reads a trip table and a zone lookup table with Polars,
  cleans and enriches the trips in \<^verbatim>\<open>load_data\<close>, and filters the result by the
  sidebar widgets before rendering. A dataframe is a list of rows; every column is
  nullable, so every field is an \<open>option\<close> (\<open>None\<close> is the Polars null).

  A Polars \<^verbatim>\<open>Datetime\<close> is a 64-bit count of time units since the Unix epoch; the
  trip file stores microseconds, so a timestamp is an \<open>int\<close> of microseconds. The
  float columns are idealised as \<open>real\<close>: rounding, infinities and NaN are outside the
  model. Columns of the trip file that the script never reads are left out.
\<close>

record trip =
  tpep_pickup_datetime :: "int option"
  tpep_dropoff_datetime :: "int option"
  PULocationID :: "int option"
  DOLocationID :: "int option"
  trip_distance :: "real option"
  fare_amount :: "real option"
  total_amount :: "real option"
  payment_type :: "int option"

text \<open>One row of \<^verbatim>\<open>taxi_zone_lookup.csv\<close>.\<close>

record zone =
  LocationID :: "int option"
  Borough :: "string option"
  Zone :: "string option"

text \<open>
  Each \<^verbatim>\<open>with_columns\<close> and each join of \<^verbatim>\<open>load_data\<close> widens the row; the
  stages are record extensions in the order of the source.
\<close>

record trip_feat = trip +
  trip_duration_minutes :: "real option"
  pickup_hour :: "int option"
  pickup_day_of_week :: "string option"

record trip_speed = trip_feat +
  trip_speed_mph :: "real option"

record trip_pu = trip_speed +
  pickup_zone :: "string option"
  pickup_borough :: "string option"

record trip_do = trip_pu +
  dropoff_zone :: "string option"
  dropoff_borough :: "string option"

record unified = trip_do +
  payment_label :: "string option"

definition PAYMENT_MAP :: "(int \<times> string) list" where
  "PAYMENT_MAP = [(1, ''Credit Card''), (2, ''Cash''), (3, ''No Charge''),
                  (4, ''Dispute''), (5, ''Unknown'')]"

definition DAY_ORDER :: "string list" where
  "DAY_ORDER = [''Monday'', ''Tuesday'', ''Wednesday'', ''Thursday'', ''Friday'',
                ''Saturday'', ''Sunday'']"

section \<open>Polars expressions on nullable values\<close>

text \<open>
  A comparison or an arithmetic operation with a null operand is null. The
  conjunction \<^verbatim>\<open>&\<close> is Kleene's: false wins over null. \<^verbatim>\<open>filter\<close> keeps the rows
  whose predicate is true, so a null predicate drops the row.
\<close>

fun pl_gt :: "'a::ord option \<Rightarrow> 'a option \<Rightarrow> bool option" where
  "pl_gt (Some a) (Some b) = Some (a > b)"
| "pl_gt _ _ = None"

fun pl_le :: "'a::ord option \<Rightarrow> 'a option \<Rightarrow> bool option" where
  "pl_le (Some a) (Some b) = Some (a \<le> b)"
| "pl_le _ _ = None"

fun pl_and :: "bool option \<Rightarrow> bool option \<Rightarrow> bool option" where
  "pl_and (Some False) _ = Some False"
| "pl_and _ (Some False) = Some False"
| "pl_and (Some True) (Some True) = Some True"
| "pl_and _ _ = None"

fun pl_sub :: "int option \<Rightarrow> int option \<Rightarrow> int option" where
  "pl_sub (Some a) (Some b) = Some (a - b)"
| "pl_sub _ _ = None"

fun pl_div :: "real option \<Rightarrow> real option \<Rightarrow> real option" where
  "pl_div (Some a) (Some b) = Some (a / b)"
| "pl_div _ _ = None"

definition pl_filter :: "('r \<Rightarrow> bool option) \<Rightarrow> 'r list \<Rightarrow> 'r list" where
  "pl_filter p df = filter (\<lambda>r. p r = Some True) df"

text \<open>
  \<^verbatim>\<open>dt.total_seconds()\<close> of a duration is an Int64 of whole seconds: the microsecond
  count divided by a million, rounded towards zero.
\<close>

definition total_seconds :: "int \<Rightarrow> int" where
  "total_seconds d = (if 0 \<le> d then d div 1000000 else - ((- d) div 1000000))"

text \<open>\<^verbatim>\<open>dt.hour()\<close>: the hour of the day of a timestamp.\<close>

definition dt_hour :: "int \<Rightarrow> int" where
  "dt_hour t = (t div 3600000000) mod 24"

text \<open>
  \<^verbatim>\<open>dt.strftime("%A")\<close>: the full English weekday name. Day 0 of the epoch,
  1970-01-01, was a Thursday, index 3 from Monday.
\<close>

definition dt_weekday :: "int \<Rightarrow> nat" where
  "dt_weekday t = nat ((t div 86400000000 + 3) mod 7)"

definition strftime_A :: "int \<Rightarrow> string" where
  "strftime_A t = DAY_ORDER ! dt_weekday t"

text \<open>
  \<^verbatim>\<open>df.join(other, on=key, how="left")\<close>: every left row is kept; it is paired with
  each right row of the same key, or once with nulls when there is none. A null key
  matches nothing.
\<close>

definition key_match :: "int option \<Rightarrow> int option \<Rightarrow> bool" where
  "key_match a b = (case a of None \<Rightarrow> False | Some k \<Rightarrow> b = Some k)"

definition left_join ::
  "('l \<Rightarrow> int option) \<Rightarrow> ('r \<Rightarrow> int option) \<Rightarrow> ('l \<Rightarrow> 'r option \<Rightarrow> 'o) \<Rightarrow>
   'l list \<Rightarrow> 'r list \<Rightarrow> 'o list" where
  "left_join lkey rkey mk df other =
     concat (map (\<lambda>l. case filter (\<lambda>r. key_match (lkey l) (rkey r)) other of
                         [] \<Rightarrow> [mk l None]
                       | ms \<Rightarrow> map (\<lambda>r. mk l (Some r)) ms) df)"

section \<open>The pipeline \<^verbatim>\<open>load_data\<close>\<close>

text \<open>\<^verbatim>\<open>df.drop_nulls(subset=critical_cols)\<close>.\<close>

definition critical_present :: "trip \<Rightarrow> bool" where
  "critical_present r \<longleftrightarrow>
     tpep_pickup_datetime r \<noteq> None \<and> tpep_dropoff_datetime r \<noteq> None \<and>
     PULocationID r \<noteq> None \<and> DOLocationID r \<noteq> None \<and> fare_amount r \<noteq> None"

definition drop_nulls :: "trip list \<Rightarrow> trip list" where
  "drop_nulls df = filter critical_present df"

text \<open>The predicate of the \<^verbatim>\<open>filter\<close> call, four comparisons joined by \<^verbatim>\<open>&\<close>.\<close>

definition valid_expr :: "trip \<Rightarrow> bool option" where
  "valid_expr r =
     pl_and (pl_and (pl_and (pl_gt (trip_distance r) (Some 0))
                            (pl_gt (fare_amount r) (Some 0)))
                    (pl_le (fare_amount r) (Some 500)))
            (pl_gt (tpep_dropoff_datetime r) (tpep_pickup_datetime r))"

definition cleaning :: "trip list \<Rightarrow> trip list" where
  "cleaning df = pl_filter valid_expr (drop_nulls df)"

text \<open>Feature engineering: duration in minutes, hour and weekday of the pickup.\<close>

definition duration_expr :: "int option \<Rightarrow> int option \<Rightarrow> real option" where
  "duration_expr dropoff pickup =
     pl_div (map_option (\<lambda>d. real_of_int (total_seconds d)) (pl_sub dropoff pickup))
            (Some 60)"

definition add_features :: "trip \<Rightarrow> trip_feat" where
  "add_features r =
     trip.extend r (trip_feat.fields
       (duration_expr (tpep_dropoff_datetime r) (tpep_pickup_datetime r))
       (map_option dt_hour (tpep_pickup_datetime r))
       (map_option strftime_A (tpep_pickup_datetime r)))"

text \<open>
  Speed: \<^verbatim>\<open>when(duration > 0).then(distance / (duration / 60)).otherwise(None)\<close>.
  A null condition takes the \<^verbatim>\<open>otherwise\<close> branch.
\<close>

definition speed_expr :: "real option \<Rightarrow> real option \<Rightarrow> real option" where
  "speed_expr distance duration =
     (if pl_gt duration (Some 0) = Some True
      then pl_div distance (pl_div duration (Some 60))
      else None)"

definition add_speed :: "trip_feat \<Rightarrow> trip_speed" where
  "add_speed r =
     trip_feat.extend r (trip_speed.fields
       (speed_expr (trip_distance r) (trip_duration_minutes r)))"

text \<open>The two joins with the renamed and projected zone table.\<close>

definition join_pu :: "trip_speed list \<Rightarrow> zone list \<Rightarrow> trip_pu list" where
  "join_pu df zones =
     left_join PULocationID LocationID
       (\<lambda>r z. trip_speed.extend r (trip_pu.fields
                 (Option.bind z Zone) (Option.bind z Borough)))
       df zones"

definition join_do :: "trip_pu list \<Rightarrow> zone list \<Rightarrow> trip_do list" where
  "join_do df zones =
     left_join DOLocationID LocationID
       (\<lambda>r z. trip_pu.extend r (trip_do.fields
                 (Option.bind z Zone) (Option.bind z Borough)))
       df zones"

text \<open>
  The payment label: \<^verbatim>\<open>map_elements(lambda x: PAYMENT_MAP.get(x, "Unknown"))\<close>.
  \<^verbatim>\<open>map_elements\<close> is called with its default \<^verbatim>\<open>skip_nulls=True\<close>: the function is
  applied to the non-null elements only and a null element stays null.
\<close>

definition payment_get :: "int \<Rightarrow> string" where
  "payment_get x = (case map_of PAYMENT_MAP x of Some l \<Rightarrow> l | None \<Rightarrow> ''Unknown'')"

definition payment_label_expr :: "int option \<Rightarrow> string option" where
  "payment_label_expr code = map_option payment_get code"

definition add_payment_label :: "trip_do \<Rightarrow> unified" where
  "add_payment_label r =
     trip_do.extend r (unified.fields (payment_label_expr (payment_type r)))"

text \<open>
  \<^verbatim>\<open>load_data\<close> from the two tables as read from disk (the downloads are in the
  fetcher below; \<^verbatim>\<open>to_pandas\<close> keeps rows and values).
\<close>

definition load_data :: "trip list \<Rightarrow> zone list \<Rightarrow> unified list" where
  "load_data trips zones =
     map add_payment_label
       (join_do (join_pu (map add_speed (map add_features (cleaning trips))) zones) zones)"

text \<open>The trip columns of a unified row.\<close>

definition raw_of :: "unified \<Rightarrow> trip" where
  "raw_of u = trip.truncate u"

text \<open>
  A unified row in one step: the trip \<open>r\<close> with the zone row (or none) that each
  join paired it with.
\<close>

definition assemble :: "trip \<Rightarrow> zone option \<Rightarrow> zone option \<Rightarrow> unified" where
  "assemble r zp zd =
     add_payment_label
       (trip_pu.extend
          (trip_speed.extend (add_speed (add_features r))
             (trip_pu.fields (Option.bind zp Zone) (Option.bind zp Borough)))
          (trip_do.fields (Option.bind zd Zone) (Option.bind zd Borough)))"

text \<open>
  The zone rows a key can be paired with by a left join: each matching row, or none
  when no row matches.
\<close>

definition joined_with :: "int option \<Rightarrow> zone list \<Rightarrow> zone option \<Rightarrow> bool" where
  "joined_with k zones z =
     (case z of
        None \<Rightarrow> list_all (\<lambda>r. \<not> key_match k (LocationID r)) zones
      | Some r \<Rightarrow> r \<in> set zones \<and> key_match k (LocationID r))"

text \<open>
  The admission invariants of the specification's data model, in its words: the
  five critical fields are present, the distance is positive, the fare is in
  \<open>(0, 500]\<close> and the dropoff is strictly after the pickup.
\<close>

definition admitted :: "'a trip_scheme \<Rightarrow> bool" where
  "admitted r \<longleftrightarrow>
     (case (tpep_pickup_datetime r, tpep_dropoff_datetime r) of
        (Some p, Some d) \<Rightarrow> d > p | _ \<Rightarrow> False) \<and>
     (case trip_distance r of Some x \<Rightarrow> x > 0 | None \<Rightarrow> False) \<and>
     (case fare_amount r of Some f \<Rightarrow> 0 < f \<and> f \<le> 500 | None \<Rightarrow> False) \<and>
     PULocationID r \<noteq> None \<and> DOLocationID r \<noteq> None"

text \<open>
  Timestamps written as calendar dates: the days from 1970-01-01 to a date of the
  proleptic Gregorian calendar, and the microsecond timestamp of a date and time.
\<close>

definition days_from_civil :: "int \<Rightarrow> int \<Rightarrow> int \<Rightarrow> int" where
  "days_from_civil y m d =
     (let y' = (if m \<le> 2 then y - 1 else y);
          era = y' div 400;
          yoe = y' - era * 400;
          mp = (m + 9) mod 12;
          doy = (153 * mp + 2) div 5 + d - 1;
          doe = yoe * 365 + yoe div 4 - yoe div 100 + doy
      in era * 146097 + doe - 719468)"

definition datetime_us :: "int \<Rightarrow> int \<Rightarrow> int \<Rightarrow> int \<Rightarrow> int \<Rightarrow> int \<Rightarrow> int" where
  "datetime_us y m d hh mm ss =
     (((days_from_civil y m d * 24 + hh) * 60 + mm) * 60 + ss) * 1000000"

section \<open>The fetcher \<^verbatim>\<open>_download_if_missing\<close>\<close>

text \<open>
  The file system maps a path to a file with its bytes or to a directory; a
  read-only file system refuses every creation. The transport answers a URL with
  no connection, or with a status code and a body whose stream may break after some
  bytes. \<open>requests\<close> records every invocation of the transport.
\<close>

datatype node = File "nat list" | Dir

datatype response = Unreachable | Response nat "nat list" "nat option"

datatype error =
  FileNotFoundError | FileExistsError | IsADirectoryError | PermissionError |
  ConnectionError | HTTPError | ChunkedEncodingError | IndexError | KeyError

record world =
  nodes :: "string \<Rightarrow> node option"
  read_only :: bool
  requests :: "string list"

definition exists_path :: "world \<Rightarrow> string \<Rightarrow> bool" where
  "exists_path w p \<longleftrightarrow> nodes w p \<noteq> None"

text \<open>\<^verbatim>\<open>os.path.dirname\<close> of \<^verbatim>\<open>posixpath\<close>.\<close>

definition dirname :: "string \<Rightarrow> string" where
  "dirname p =
     (let head = rev (dropWhile (\<lambda>c. c \<noteq> CHR ''/'') (rev p))
      in if head \<noteq> [] \<and> \<not> list_all (\<lambda>c. c = CHR ''/'') head
         then rev (dropWhile (\<lambda>c. c = CHR ''/'') (rev head))
         else head)"

text \<open>
  \<^verbatim>\<open>os.makedirs(name, exist_ok=True)\<close>. The intermediate directories it creates
  on the way are not tracked.
\<close>

definition makedirs :: "string \<Rightarrow> world \<Rightarrow> error + world" where
  "makedirs name w =
     (if name = [] then Inl FileNotFoundError
      else case nodes w name of
             Some Dir \<Rightarrow> Inr w
           | Some (File _) \<Rightarrow> Inl FileExistsError
           | None \<Rightarrow> if read_only w then Inl PermissionError
                     else Inr (w\<lparr>nodes := (nodes w)(name \<mapsto> Dir)\<rparr>))"

text \<open>\<^verbatim>\<open>open(path, "wb")\<close> creates the file or truncates it.\<close>

definition open_wb :: "string \<Rightarrow> world \<Rightarrow> error + world" where
  "open_wb path w =
     (if read_only w then Inl PermissionError
      else case nodes w path of
             Some Dir \<Rightarrow> Inl IsADirectoryError
           | _ \<Rightarrow> Inr (w\<lparr>nodes := (nodes w)(path \<mapsto> File [])\<rparr>))"

text \<open>\<^verbatim>\<open>f.write(chunk)\<close> appends to the open file.\<close>

definition write_chunk :: "string \<Rightarrow> nat list \<Rightarrow> world \<Rightarrow> world" where
  "write_chunk path chunk w =
     (case nodes w path of
        Some (File bs) \<Rightarrow> w\<lparr>nodes := (nodes w)(path \<mapsto> File (bs @ chunk))\<rparr>
      | _ \<Rightarrow> w)"

text \<open>\<^verbatim>\<open>r.iter_content(chunk_size=n)\<close> cuts the body into chunks of \<open>n\<close> bytes.\<close>

function iter_content :: "nat \<Rightarrow> nat list \<Rightarrow> nat list list" where
  "iter_content n bs =
     (if n = 0 \<or> bs = [] then [] else take n bs # iter_content n (drop n bs))"
  by pat_completeness auto
termination
  by (relation "measure (\<lambda>(n, bs). length bs)") auto

declare iter_content.simps [simp del]

text \<open>The loop \<^verbatim>\<open>for chunk in ...: f.write(chunk)\<close>.\<close>

fun write_chunks :: "string \<Rightarrow> nat list list \<Rightarrow> world \<Rightarrow> world" where
  "write_chunks path [] w = w"
| "write_chunks path (c # cs) w = write_chunks path cs (write_chunk path c w)"

text \<open>
  The result is the exception raised, if any, and the world as the call leaves it:
  a failed download leaves what it created.
\<close>

definition download_if_missing ::
  "(string \<Rightarrow> response) \<Rightarrow> string \<Rightarrow> string \<Rightarrow> world \<Rightarrow> error option \<times> world" where
  "download_if_missing net url path w =
     (if \<not> exists_path w path then
        (case makedirs (dirname path) w of
           Inl e \<Rightarrow> (Some e, w)
         | Inr w1 \<Rightarrow>
             (let w2 = w1\<lparr>requests := requests w1 @ [url]\<rparr> in
              case net url of
                Unreachable \<Rightarrow> (Some ConnectionError, w2)
              | Response status body brk \<Rightarrow>
                  if 400 \<le> status \<and> status < 600 then (Some HTTPError, w2)
                  else (case open_wb path w2 of
                          Inl e \<Rightarrow> (Some e, w2)
                        | Inr w3 \<Rightarrow>
                            (case brk of
                               None \<Rightarrow>
                                 (None, write_chunks path (iter_content 1048576 body) w3)
                             | Some k \<Rightarrow>
                                 (Some ChunkedEncodingError,
                                  write_chunks path
                                    (iter_content 1048576 (take k body)) w3)))))
      else (None, w))"

section \<open>The sidebar filters and the render cycle\<close>

text \<open>
  The widgets give a date range (a sequence of dates, or one date; a date is a day
  number since the epoch), an hour range and the selected payment labels.
\<close>

datatype date_input = DateSeq "int list" | DateSingle int

definition date_bounds :: "date_input \<Rightarrow> error + (int \<times> int)" where
  "date_bounds date_range =
     (case date_range of
        DateSeq ds \<Rightarrow>
          (if length ds = 2 then Inr (ds ! 0, ds ! 1)
           else (case ds of [] \<Rightarrow> Inl IndexError | d # _ \<Rightarrow> Inr (d, d)))
      | DateSingle d \<Rightarrow> Inr (d, d))"

text \<open>\<^verbatim>\<open>dt.normalize().dt.date\<close>: the day of a timestamp.\<close>

definition date_of :: "int \<Rightarrow> int" where
  "date_of t = t div 86400000000"

text \<open>\<^verbatim>\<open>sorted(df_full["payment_label"].dropna().unique().tolist())\<close>.\<close>

definition all_payment_types :: "unified list \<Rightarrow> string list" where
  "all_payment_types df_full = sort (remdups (List.map_filter payment_label df_full))"

text \<open>\<^verbatim>\<open>Series.isin\<close>: a null label is in no list of labels.\<close>

definition isin :: "string option \<Rightarrow> string list \<Rightarrow> bool" where
  "isin v values = (case v of None \<Rightarrow> False | Some l \<Rightarrow> l \<in> set values)"

text \<open>
  The boolean \<^verbatim>\<open>mask\<close>, row by row. A comparison with a null is false in pandas; the
  pickup time and hour of a table built by \<open>load_data\<close> are never null.
\<close>

definition mask_row :: "unified list \<Rightarrow> int \<times> int \<Rightarrow> int \<times> int \<Rightarrow> string list \<Rightarrow> unified \<Rightarrow> bool" where
  "mask_row df_full dates hour_range selected_payments r \<longleftrightarrow>
     (case tpep_pickup_datetime r of None \<Rightarrow> False | Some t \<Rightarrow> date_of t \<ge> fst dates) \<and>
     (case tpep_pickup_datetime r of None \<Rightarrow> False | Some t \<Rightarrow> date_of t \<le> snd dates) \<and>
     (case pickup_hour r of None \<Rightarrow> False | Some h \<Rightarrow> h \<ge> fst hour_range) \<and>
     (case pickup_hour r of None \<Rightarrow> False | Some h \<Rightarrow> h \<le> snd hour_range) \<and>
     isin (payment_label r)
       (if selected_payments \<noteq> [] then selected_payments else all_payment_types df_full)"

text \<open>The filter step: the rows of \<open>df_full\<close> that the mask selects.\<close>

definition apply_filters ::
  "unified list \<Rightarrow> date_input \<Rightarrow> int \<times> int \<Rightarrow> string list \<Rightarrow> error + unified list" where
  "apply_filters df_full date_range hour_range selected_payments =
     (case date_bounds date_range of
        Inl e \<Rightarrow> Inl e
      | Inr dates \<Rightarrow> Inr (filter (mask_row df_full dates hour_range selected_payments) df_full))"

text \<open>
  The script's objects live in a store, a list addressed by position; a new object
  is appended. What the page shows is a list of elements; the figures and numbers
  inside a chart or a metric are not modelled.
\<close>

datatype obj = Frame "unified list" | Series "real option list"

datatype element =
  Warning string | Info string | Title | Markdown | Subheader string |
  Metric string | Divider | Tabs | PlotlyChart string | Caption

datatype outcome = Stopped | Finished

record session =
  store :: "obj list"
  page :: "element list"

definition alloc :: "obj \<Rightarrow> session \<Rightarrow> nat \<times> session" where
  "alloc x s = (length (store s), s\<lparr>store := store s @ [x]\<rparr>)"

definition get_frame :: "session \<Rightarrow> nat \<Rightarrow> unified list option" where
  "get_frame s a =
     (if a < length (store s)
      then (case store s ! a of Frame df \<Rightarrow> Some df | Series _ \<Rightarrow> None)
      else None)"

definition emit :: "element list \<Rightarrow> session \<Rightarrow> session" where
  "emit es s = s\<lparr>page := page s @ es\<rparr>"

text \<open>
  \<^verbatim>\<open>groupby(["pickup_day_of_week", "pickup_hour"]).size()\<close> has no group exactly
  when no row has both keys.
\<close>

definition heatmap_empty :: "unified list \<Rightarrow> bool" where
  "heatmap_empty df =
     list_all (\<lambda>r. pickup_day_of_week r = None \<or> pickup_hour r = None) df"

text \<open>\<^verbatim>\<open>df[df["trip_distance"] <= 30]\<close>, then its column \<^verbatim>\<open>trip_distance\<close>.\<close>

definition clip_rows :: "unified list \<Rightarrow> unified list" where
  "clip_rows df =
     filter (\<lambda>r. case trip_distance r of None \<Rightarrow> False | Some x \<Rightarrow> x \<le> 30) df"

text \<open>The header, the metrics and the five tabs, for a non-empty \<open>df\<close>.\<close>

definition render_charts :: "unified list \<Rightarrow> session \<Rightarrow> session" where
  "render_charts df s0 =
     (let s1 = emit [Title, Markdown, Subheader ''Key Metrics'',
                     Metric ''Total Trips'', Metric ''Avg Fare'', Metric ''Total Revenue'',
                     Metric ''Avg Distance (mi)'', Metric ''Avg Duration (min)'',
                     Divider, Tabs] s0;
          s2 = emit [Subheader ''Top 10 Pickup Zones by Trip Count'',
                     PlotlyChart ''fig1'', Caption] s1;
          s3 = emit [Subheader ''Average Fare Amount by Hour of Day'',
                     PlotlyChart ''fig2'', Caption] s2;
          s4 = emit [Subheader ''Distribution of Trip Distances''] s3;
          (a1, s5) = alloc (Frame (clip_rows df)) s4;
          (a2, s6) = alloc (Series (map trip_distance (clip_rows df))) s5;
          s7 = emit [PlotlyChart ''fig3'', Caption] s6;
          s8 = emit [Subheader ''Trip Breakdown by Payment Type'',
                     PlotlyChart ''fig4'', Caption] s7;
          s9 = emit [Subheader ''Trip Count by Day of Week and Hour''] s8;
          s10 = (if heatmap_empty df
                 then emit [Info ''Not enough data to display the heatmap for the current filters.''] s9
                 else emit [PlotlyChart ''fig5'', Caption] s9)
      in emit [Divider, Markdown] s10)"

text \<open>
  One run of the script from ``Apply filters'' on: \<open>df_full\<close> is the object at
  address \<open>a\<close>. \<^verbatim>\<open>df_full[mask]\<close> is a new frame and \<^verbatim>\<open>.copy()\<close> another one.
  \<^verbatim>\<open>st.stop()\<close> ends the run; the process lives on.
\<close>

definition render_cycle ::
  "session \<Rightarrow> nat \<Rightarrow> date_input \<Rightarrow> int \<times> int \<Rightarrow> string list \<Rightarrow> error + (outcome \<times> session)" where
  "render_cycle s a date_range hour_range selected_payments =
     (case get_frame s a of
        None \<Rightarrow> Inl KeyError
      | Some df_full \<Rightarrow>
          (case apply_filters df_full date_range hour_range selected_payments of
             Inl e \<Rightarrow> Inl e
           | Inr rows \<Rightarrow>
               (let (a1, s1) = alloc (Frame rows) s;
                    (df, s2) = alloc (Frame rows) s1
                in if rows = []
                   then Inr (Stopped,
                             emit [Warning ''No trips match the current filters. Please adjust your sidebar selections.''] s2)
                   else Inr (Finished, render_charts rows s2))))"

text \<open>The page shows no chart.\<close>

definition no_chart :: "element list \<Rightarrow> bool" where
  "no_chart es = list_all (\<lambda>e. case e of PlotlyChart _ \<Rightarrow> False | _ \<Rightarrow> True) es"

section \<open>Example tables\<close>

text \<open>
  Three raw rows: \<open>trip_A\<close> has a fare of zero, \<open>trip_B\<close> is dropped off at its
  pickup time, \<open>trip_C\<close> is valid and runs from 04:00:00 to 04:15:00 on 2024-01-05
  to a location that the lookup does not have. \<open>trip_Z\<close> is valid, lasts half a
  second and has no payment type.
\<close>

definition trip_A :: trip where
  "trip_A = \<lparr>tpep_pickup_datetime = Some (datetime_us 2024 1 5 3 0 0),
            tpep_dropoff_datetime = Some (datetime_us 2024 1 5 3 10 0),
            PULocationID = Some 132, DOLocationID = Some 48, trip_distance = Some 1.2,
            fare_amount = Some 0, total_amount = Some 0, payment_type = Some 2\<rparr>"

definition trip_B :: trip where
  "trip_B = \<lparr>tpep_pickup_datetime = Some (datetime_us 2024 1 5 5 0 0),
            tpep_dropoff_datetime = Some (datetime_us 2024 1 5 5 0 0),
            PULocationID = Some 132, DOLocationID = Some 48, trip_distance = Some 3,
            fare_amount = Some 12, total_amount = Some 15, payment_type = Some 1\<rparr>"

definition trip_C :: trip where
  "trip_C = \<lparr>tpep_pickup_datetime = Some (datetime_us 2024 1 5 4 0 0),
            tpep_dropoff_datetime = Some (datetime_us 2024 1 5 4 15 0),
            PULocationID = Some 132, DOLocationID = Some 999, trip_distance = Some 2.5,
            fare_amount = Some 14.5, total_amount = Some 18, payment_type = Some 1\<rparr>"

definition trip_Z :: trip where
  "trip_Z = \<lparr>tpep_pickup_datetime = Some 1704427200000000,
            tpep_dropoff_datetime = Some 1704427200500000,
            PULocationID = Some 132, DOLocationID = Some 48, trip_distance = Some 0.1,
            fare_amount = Some 3, total_amount = Some 3, payment_type = None\<rparr>"

definition zone_JFK :: zone where
  "zone_JFK = \<lparr>LocationID = Some 132, Borough = Some ''Queens'', Zone = Some ''JFK Airport''\<rparr>"

definition zone_Clinton :: zone where
  "zone_Clinton = \<lparr>LocationID = Some 48, Borough = Some ''Manhattan'', Zone = Some ''Clinton East''\<rparr>"

text \<open>
  A file system that holds the zone file only, a transport that answers every URL
  with two bytes, and a session whose store holds the example table.
\<close>

definition world0 :: world where
  "world0 = \<lparr>nodes = (\<lambda>p. if p = ''data/raw/zones.csv'' then Some (File [1, 2]) else None),
            read_only = False, requests = []\<rparr>"

definition net0 :: "string \<Rightarrow> response" where
  "net0 url = Response 200 [72, 105] None"

definition session0 :: session where
  "session0 = \<lparr>store = [Frame (load_data [trip_A, trip_B, trip_C] [zone_JFK, zone_Clinton])],
              page = []\<rparr>"

section \<open>Nullable expressions\<close>

lemma pl_gt_True_iff:
  "pl_gt x y = Some True \<longleftrightarrow> (\<exists>a b. x = Some a \<and> y = Some b \<and> a > b)"
  by (cases x; cases y; simp)

lemma pl_le_True_iff:
  "pl_le x y = Some True \<longleftrightarrow> (\<exists>a b. x = Some a \<and> y = Some b \<and> a \<le> b)"
  by (cases x; cases y; simp)

lemma pl_and_True_iff:
  "pl_and x y = Some True \<longleftrightarrow> x = Some True \<and> y = Some True"
  by (induction x y rule: pl_and.induct) simp_all

lemma valid_expr_admitted:
  "critical_present r \<and> valid_expr r = Some True \<longleftrightarrow> admitted r"
  by (cases "tpep_pickup_datetime r"; cases "tpep_dropoff_datetime r";
      cases "trip_distance r"; cases "fare_amount r")
     (auto simp: critical_present_def valid_expr_def admitted_def
                 pl_and_True_iff pl_gt_True_iff pl_le_True_iff)

lemma set_cleaning: "set (cleaning df) = {r \<in> set df. admitted r}"
  using valid_expr_admitted by (auto simp: cleaning_def pl_filter_def drop_nulls_def)

section \<open>Rows of the unified table\<close>

lemmas row_defs =
  add_payment_label_def add_speed_def add_features_def raw_of_def
  trip.defs trip_feat.defs trip_speed.defs trip_pu.defs trip_do.defs unified.defs

lemma cleaning_filter: "cleaning df = filter admitted df"
proof -
  have "filter (\<lambda>r. valid_expr r = Some True) (filter critical_present df) =
        filter (\<lambda>r. critical_present r \<and> valid_expr r = Some True) df"
    by (simp add: conj_commute)
  then show ?thesis
    by (simp add: cleaning_def pl_filter_def drop_nulls_def valid_expr_admitted)
qed

lemma assemble_base:
  "tpep_pickup_datetime (assemble r zp zd) = tpep_pickup_datetime r"
  "tpep_dropoff_datetime (assemble r zp zd) = tpep_dropoff_datetime r"
  "PULocationID (assemble r zp zd) = PULocationID r"
  "DOLocationID (assemble r zp zd) = DOLocationID r"
  "trip_distance (assemble r zp zd) = trip_distance r"
  "fare_amount (assemble r zp zd) = fare_amount r"
  "total_amount (assemble r zp zd) = total_amount r"
  "payment_type (assemble r zp zd) = payment_type r"
  "raw_of (assemble r zp zd) = r"
  by (simp_all add: assemble_def row_defs)

lemma assemble_derived:
  "trip_duration_minutes (assemble r zp zd) =
     duration_expr (tpep_dropoff_datetime r) (tpep_pickup_datetime r)"
  "pickup_hour (assemble r zp zd) = map_option dt_hour (tpep_pickup_datetime r)"
  "pickup_day_of_week (assemble r zp zd) = map_option strftime_A (tpep_pickup_datetime r)"
  "trip_speed_mph (assemble r zp zd) =
     speed_expr (trip_distance r)
       (duration_expr (tpep_dropoff_datetime r) (tpep_pickup_datetime r))"
  "pickup_zone (assemble r zp zd) = Option.bind zp Zone"
  "pickup_borough (assemble r zp zd) = Option.bind zp Borough"
  "dropoff_zone (assemble r zp zd) = Option.bind zd Zone"
  "dropoff_borough (assemble r zp zd) = Option.bind zd Borough"
  "payment_label (assemble r zp zd) = payment_label_expr (payment_type r)"
  by (simp_all add: assemble_def row_defs)


lemma join_row_set:
  "set (case filter P other of [] \<Rightarrow> [a] | m # ms \<Rightarrow> map f (m # ms)) =
     (if list_all (\<lambda>r. \<not> P r) other then {a} else f ` {r \<in> set other. P r})"
proof (cases "filter P other")
  case Nil
  then show ?thesis by (simp add: filter_empty_conv list_all_iff)
next
  case (Cons m ms)
  then have "m \<in> set (filter P other)" by simp
  then have ne: "\<not> list_all (\<lambda>r. \<not> P r) other" by (auto simp: list_all_iff)
  have "set (map f (filter P other)) = f ` {r \<in> set other. P r}" by simp
  with Cons ne show ?thesis by simp
qed

lemma left_join_mem:
  "x \<in> set (left_join lk rk mk df other) \<longleftrightarrow>
     (\<exists>l\<in>set df.
        (list_all (\<lambda>r. \<not> key_match (lk l) (rk r)) other \<and> x = mk l None) \<or>
        (\<exists>r\<in>set other. key_match (lk l) (rk r) \<and> x = mk l (Some r)))"
  unfolding left_join_def set_concat set_map
  by (auto simp: join_row_set list_all_iff split: if_splits)

lemma ex_joined_with:
  "(\<exists>z. joined_with k zones z \<and> Q z) \<longleftrightarrow>
     (list_all (\<lambda>r. \<not> key_match k (LocationID r)) zones \<and> Q None) \<or>
     (\<exists>r\<in>set zones. key_match k (LocationID r) \<and> Q (Some r))"
proof
  assume "\<exists>z. joined_with k zones z \<and> Q z"
  then obtain z where z: "joined_with k zones z" "Q z" by blast
  then show "(list_all (\<lambda>r. \<not> key_match k (LocationID r)) zones \<and> Q None) \<or>
     (\<exists>r\<in>set zones. key_match k (LocationID r) \<and> Q (Some r))"
    by (cases z) (auto simp: joined_with_def)
next
  assume "(list_all (\<lambda>r. \<not> key_match k (LocationID r)) zones \<and> Q None) \<or>
     (\<exists>r\<in>set zones. key_match k (LocationID r) \<and> Q (Some r))"
  then show "\<exists>z. joined_with k zones z \<and> Q z"
  proof
    assume "list_all (\<lambda>r. \<not> key_match k (LocationID r)) zones \<and> Q None"
    then have "joined_with k zones None \<and> Q None" by (simp add: joined_with_def)
    then show ?thesis by blast
  next
    assume "\<exists>r\<in>set zones. key_match k (LocationID r) \<and> Q (Some r)"
    then obtain r where "r \<in> set zones" "key_match k (LocationID r)" "Q (Some r)" by blast
    then have "joined_with k zones (Some r) \<and> Q (Some r)" by (simp add: joined_with_def)
    then show ?thesis by blast
  qed
qed

lemma joined_with_ex: "\<exists>z. joined_with k zones z"
  using ex_joined_with [of k zones "\<lambda>_. True"] by (auto simp: list_all_iff)

lemma join_pu_mem:
  "x \<in> set (join_pu df zones) \<longleftrightarrow>
     (\<exists>l\<in>set df. \<exists>z. joined_with (PULocationID l) zones z \<and>
        x = trip_speed.extend l (trip_pu.fields (Option.bind z Zone) (Option.bind z Borough)))"
  by (simp add: join_pu_def left_join_mem ex_joined_with)

lemma join_do_mem:
  "x \<in> set (join_do df zones) \<longleftrightarrow>
     (\<exists>l\<in>set df. \<exists>z. joined_with (DOLocationID l) zones z \<and>
        x = trip_pu.extend l (trip_do.fields (Option.bind z Zone) (Option.bind z Borough)))"
  by (simp add: join_do_def left_join_mem ex_joined_with)

lemma staged_keys:
  "PULocationID (add_speed (add_features r)) = PULocationID r"
  "DOLocationID (trip_speed.extend (add_speed (add_features r)) x) = DOLocationID r"
  by (simp_all add: row_defs)

lemma load_data_mem:
  "u \<in> set (load_data trips zones) \<longleftrightarrow>
     (\<exists>r\<in>set trips. admitted r \<and>
        (\<exists>zp zd. joined_with (PULocationID r) zones zp \<and>
                 joined_with (DOLocationID r) zones zd \<and> u = assemble r zp zd))"
  (is "?L \<longleftrightarrow> ?R")
proof
  assume ?L
  then obtain y where y:
    "y \<in> set (join_do (join_pu (map add_speed (map add_features (cleaning trips))) zones) zones)"
    "u = add_payment_label y"
    by (auto simp: load_data_def simp del: map_map)
  from y(1) obtain l zd where l:
    "l \<in> set (join_pu (map add_speed (map add_features (cleaning trips))) zones)"
    "joined_with (DOLocationID l) zones zd"
    "y = trip_pu.extend l (trip_do.fields (Option.bind zd Zone) (Option.bind zd Borough))"
    unfolding join_do_mem by blast
  from l(1) obtain q zp where q:
    "q \<in> set (map add_speed (map add_features (cleaning trips)))"
    "joined_with (PULocationID q) zones zp"
    "l = trip_speed.extend q (trip_pu.fields (Option.bind zp Zone) (Option.bind zp Borough))"
    unfolding join_pu_mem by blast
  from q(1) obtain r where r: "r \<in> set (cleaning trips)" "q = add_speed (add_features r)"
    by auto
  have "r \<in> set trips" "admitted r" using r(1) by (simp_all add: cleaning_filter)
  moreover have "joined_with (PULocationID r) zones zp"
    using q(2) by (simp add: r(2) staged_keys)
  moreover have "joined_with (DOLocationID r) zones zd"
    using l(2) by (simp add: q(3) r(2) staged_keys)
  moreover have "u = assemble r zp zd"
    by (simp add: y(2) l(3) q(3) r(2) assemble_def)
  ultimately show ?R by blast
next
  assume ?R
  then obtain r zp zd where r: "r \<in> set trips" "admitted r"
    and zp: "joined_with (PULocationID r) zones zp"
    and zd: "joined_with (DOLocationID r) zones zd"
    and u: "u = assemble r zp zd"
    by blast
  let ?q = "add_speed (add_features r)"
  let ?l = "trip_speed.extend ?q (trip_pu.fields (Option.bind zp Zone) (Option.bind zp Borough))"
  let ?y = "trip_pu.extend ?l (trip_do.fields (Option.bind zd Zone) (Option.bind zd Borough))"
  have "?q \<in> set (map add_speed (map add_features (cleaning trips)))"
    using r by (simp add: cleaning_filter)
  moreover have "joined_with (PULocationID ?q) zones zp"
    using zp by (simp add: staged_keys)
  ultimately have "?l \<in> set (join_pu (map add_speed (map add_features (cleaning trips))) zones)"
    unfolding join_pu_mem by blast
  moreover have "joined_with (DOLocationID ?l) zones zd"
    using zd by (simp add: staged_keys)
  ultimately have
    "?y \<in> set (join_do (join_pu (map add_speed (map add_features (cleaning trips))) zones) zones)"
    unfolding join_do_mem by blast
  then have "add_payment_label ?y \<in> set (load_data trips zones)"
    by (simp add: load_data_def del: map_map)
  then show ?L by (simp add: u assemble_def)
qed

section \<open>The pipeline: examples and claims\<close>

lemma key_match_eq: "key_match a b \<Longrightarrow> b = a"
  by (simp add: key_match_def split: option.splits)

lemma joined_with_no_match:
  "k \<notin> LocationID ` set zones \<Longrightarrow> joined_with k zones z \<Longrightarrow> z = None"
  by (cases z) (auto simp: joined_with_def dest: key_match_eq)

lemma left_join_length: "length df \<le> length (left_join lk rk mk df other)"
  by (induction df) (auto simp: left_join_def split: list.splits)

lemma load_data_length: "length (cleaning trips) \<le> length (load_data trips zones)"
proof -
  have "length (cleaning trips) = length (map add_speed (map add_features (cleaning trips)))"
    by simp
  also have "\<dots> \<le> length (join_pu (map add_speed (map add_features (cleaning trips))) zones)"
    unfolding join_pu_def by (rule left_join_length)
  also have "\<dots> \<le> length (join_do (join_pu (map add_speed (map add_features (cleaning trips))) zones) zones)"
    unfolding join_do_def by (rule left_join_length)
  finally show ?thesis by (simp add: load_data_def del: map_map)
qed

lemma distinct_match_le1:
  "distinct (map LocationID zones) \<Longrightarrow>
   length (filter (\<lambda>r. key_match k (LocationID r)) zones) \<le> 1"
proof (cases k)
  case None
  then show ?thesis by (simp add: key_match_def)
next
  case (Some a)
  assume "distinct (map LocationID zones)"
  then have "length (filter (\<lambda>r. LocationID r = Some a) zones) \<le> 1"
    by (induction zones) (auto simp: filter_empty_conv image_iff)
  then show ?thesis by (simp add: Some key_match_def)
qed

lemma left_join_single:
  "length (filter (\<lambda>r. key_match (lk l) (rk r)) other) \<le> 1 \<Longrightarrow>
   \<exists>z. left_join lk rk mk [l] other = [mk l z]"
  by (auto simp: left_join_def split: list.splits)

lemma load_data_single:
  assumes c: "cleaning trips = [r]" and d: "distinct (map LocationID zones)"
  shows "\<exists>zp zd. load_data trips zones = [assemble r zp zd]"
proof -
  define mkp where "mkp = (\<lambda>(r::trip_speed) (z::zone option).
     trip_speed.extend r (trip_pu.fields (Option.bind z Zone) (Option.bind z Borough)))"
  define mkd where "mkd = (\<lambda>(r::trip_pu) (z::zone option).
     trip_pu.extend r (trip_do.fields (Option.bind z Zone) (Option.bind z Borough)))"
  let ?q = "add_speed (add_features r)"
  obtain zp where zp: "left_join PULocationID LocationID mkp [?q] zones = [mkp ?q zp]"
    using left_join_single [OF distinct_match_le1 [OF d],
        where lk = PULocationID and l = ?q and mk = mkp]
    by blast
  obtain zd where zd: "left_join DOLocationID LocationID mkd [mkp ?q zp] zones = [mkd (mkp ?q zp) zd]"
    using left_join_single [OF distinct_match_le1 [OF d],
        where lk = DOLocationID and l = "mkp ?q zp" and mk = mkd]
    by blast
  have "load_data trips zones = [add_payment_label (mkd (mkp ?q zp) zd)]"
    using zp zd by (simp add: load_data_def c join_pu_def join_do_def mkp_def mkd_def)
  then have "load_data trips zones = [assemble r zp zd]"
    by (simp add: assemble_def mkp_def mkd_def)
  then show ?thesis by blast
qed

lemma zone_fields:
  "LocationID zone_JFK = Some 132" "Zone zone_JFK = Some ''JFK Airport''"
  "Borough zone_JFK = Some ''Queens''"
  "LocationID zone_Clinton = Some 48" "Zone zone_Clinton = Some ''Clinton East''"
  "Borough zone_Clinton = Some ''Manhattan''"
  by (simp_all add: zone_JFK_def zone_Clinton_def)

lemma scenario_times:
  "datetime_us 2024 1 5 4 0 0 = 1704427200000000"
  "datetime_us 2024 1 5 4 15 0 = 1704428100000000"
  "datetime_us 2024 1 5 3 0 0 = 1704423600000000"
  "datetime_us 2024 1 5 3 10 0 = 1704424200000000"
  "datetime_us 2024 1 5 5 0 0 = 1704430800000000"
  by (simp_all add: datetime_us_def days_from_civil_def)

lemma scenario_values:
  "duration_expr (Some 1704428100000000) (Some 1704427200000000) = Some 15"
  "speed_expr (Some 2.5) (Some 15) = Some 10"
  "speed_expr (Some (5 / 2)) (Some 15) = Some 10"
  "dt_hour 1704427200000000 = 4"
  "strftime_A 1704427200000000 = ''Friday''"
  by (simp_all add: duration_expr_def total_seconds_def speed_expr_def dt_hour_def
        strftime_A_def dt_weekday_def DAY_ORDER_def)

lemma trip_C_fields:
  "tpep_pickup_datetime trip_C = Some 1704427200000000"
  "tpep_dropoff_datetime trip_C = Some 1704428100000000"
  "PULocationID trip_C = Some 132" "DOLocationID trip_C = Some 999"
  "trip_distance trip_C = Some 2.5" "fare_amount trip_C = Some 14.5"
  "payment_type trip_C = Some 1"
  by (simp_all add: trip_C_def scenario_times)

lemma trip_Z_fields:
  "tpep_pickup_datetime trip_Z = Some 1704427200000000"
  "tpep_dropoff_datetime trip_Z = Some 1704427200500000"
  "PULocationID trip_Z = Some 132" "DOLocationID trip_Z = Some 48"
  "trip_distance trip_Z = Some 0.1" "fare_amount trip_Z = Some 3"
  "payment_type trip_Z = None"
  by (simp_all add: trip_Z_def)

lemma scenario_admitted:
  "\<not> admitted trip_A" "\<not> admitted trip_B" "admitted trip_C" "admitted trip_Z"
  by (simp_all add: admitted_def trip_A_def trip_B_def trip_C_def trip_Z_def scenario_times)

lemma load_data_example:
  "load_data [trip_A, trip_B, trip_C] [zone_JFK, zone_Clinton] =
     [assemble trip_C (Some zone_JFK) None]"
proof -
  have c: "cleaning [trip_A, trip_B, trip_C] = [trip_C]"
    by (simp add: cleaning_filter scenario_admitted)
  show ?thesis
    unfolding load_data_def c
    by (simp add: join_pu_def join_do_def left_join_def key_match_def staged_keys
          trip_C_fields zone_fields assemble_def)
qed

lemma load_data_example_Z: "load_data [trip_Z] [] = [assemble trip_Z None None]"
proof -
  have c: "cleaning [trip_Z] = [trip_Z]"
    by (simp add: cleaning_filter scenario_admitted)
  show ?thesis
    unfolding load_data_def c
    by (simp add: join_pu_def join_do_def left_join_def assemble_def)
qed

lemma example_Z_values:
  "duration_expr (Some 1704427200500000) (Some 1704427200000000) = Some 0"
  "speed_expr d (Some 0) = None"
  by (simp_all add: duration_expr_def total_seconds_def speed_expr_def)






text \<open>
  C3. For the raw rows A (fare zero), B (dropoff not after pickup) and a valid C from
  2024-01-05T04:00:00 to 04:15:00 over 2.5 miles, and a zone table with unique
  location ids, the unified table is the one row C, with a duration of 15 minutes,
  a speed of 10 mph, pickup hour 4 and pickup day Friday.
\<close>
theorem end_to_end_scenario:
  assumes "fare_amount A = Some 0"
    and "tpep_pickup_datetime B = Some p" and "tpep_dropoff_datetime B = Some d" and "d \<le> p"
    and "admitted C"
    and "tpep_pickup_datetime C = Some (datetime_us 2024 1 5 4 0 0)"
    and "tpep_dropoff_datetime C = Some (datetime_us 2024 1 5 4 15 0)"
    and "trip_distance C = Some 2.5"
    and "distinct (map LocationID zones)"
  shows "\<exists>u. load_data [A, B, C] zones = [u] \<and> raw_of u = C \<and>
             trip_duration_minutes u = Some 15 \<and> trip_speed_mph u = Some 10 \<and>
             pickup_hour u = Some 4 \<and> pickup_day_of_week u = Some ''Friday''"
proof -
  have nA: "\<not> admitted A" using assms(1) by (simp add: admitted_def)
  have nB: "\<not> admitted B" using assms(2-4) by (simp add: admitted_def)
  have c: "cleaning [A, B, C] = [C]"
    by (simp add: cleaning_filter nA nB assms(5))
  obtain zp zd where l: "load_data [A, B, C] zones = [assemble C zp zd]"
    using load_data_single [OF c assms(9)] by blast
  have "trip_duration_minutes (assemble C zp zd) = Some 15"
    "trip_speed_mph (assemble C zp zd) = Some 10"
    "pickup_hour (assemble C zp zd) = Some 4"
    "pickup_day_of_week (assemble C zp zd) = Some ''Friday''"
    by (simp_all add: assemble_derived assms(6-8) scenario_times scenario_values)
  with l show ?thesis by (simp add: assemble_base)
qed

theorem end_to_end_scenario_witness:
  "fare_amount trip_A = Some 0 \<and>
   tpep_dropoff_datetime trip_B = tpep_pickup_datetime trip_B \<and>
   admitted trip_C \<and> distinct (map LocationID [zone_JFK, zone_Clinton]) \<and>
   (\<exists>u. load_data [trip_A, trip_B, trip_C] [zone_JFK, zone_Clinton] = [u] \<and> raw_of u = trip_C \<and>
        trip_duration_minutes u = Some 15 \<and> trip_speed_mph u = Some 10 \<and>
        pickup_hour u = Some 4 \<and> pickup_day_of_week u = Some ''Friday'')"
proof -
  have a: "fare_amount trip_A = Some 0" by (simp add: trip_A_def)
  have b1: "tpep_pickup_datetime trip_B = Some (datetime_us 2024 1 5 5 0 0)"
    and b2: "tpep_dropoff_datetime trip_B = Some (datetime_us 2024 1 5 5 0 0)"
    by (simp_all add: trip_B_def)
  have b3: "datetime_us 2024 1 5 5 0 0 \<le> datetime_us 2024 1 5 5 0 0" by simp
  have c1: "tpep_pickup_datetime trip_C = Some (datetime_us 2024 1 5 4 0 0)"
    and c2: "tpep_dropoff_datetime trip_C = Some (datetime_us 2024 1 5 4 15 0)"
    and c3: "trip_distance trip_C = Some 2.5"
    by (simp_all add: trip_C_def)
  have z: "distinct (map LocationID [zone_JFK, zone_Clinton])"
    by (simp add: zone_fields)
  show ?thesis
    using end_to_end_scenario [OF a b1 b2 b3 scenario_admitted(3) c1 c2 c3 z]
    by (simp add: a b1 b2 scenario_admitted zone_fields)
qed

text \<open>
  C5. Both joins are left joins: every admitted trip is the trip of some unified
  row, the unified table has at least as many rows as the cleaned one, and a row
  whose pickup (dropoff) location id is the id of no zone row has no pickup
  (dropoff) zone and borough.
\<close>
theorem left_join_keeps_rows:
  "(\<forall>r\<in>set trips. admitted r \<longrightarrow> (\<exists>u\<in>set (load_data trips zones). raw_of u = r)) \<and>
   length (cleaning trips) \<le> length (load_data trips zones) \<and>
   (\<forall>u\<in>set (load_data trips zones).
      (PULocationID u \<notin> LocationID ` set zones \<longrightarrow>
         pickup_zone u = None \<and> pickup_borough u = None) \<and>
      (DOLocationID u \<notin> LocationID ` set zones \<longrightarrow>
         dropoff_zone u = None \<and> dropoff_borough u = None))"
proof (intro conjI ballI impI)
  fix r assume r: "r \<in> set trips" "admitted r"
  obtain zp where zp: "joined_with (PULocationID r) zones zp" using joined_with_ex by blast
  obtain zd where zd: "joined_with (DOLocationID r) zones zd" using joined_with_ex by blast
  have "assemble r zp zd \<in> set (load_data trips zones)"
    unfolding load_data_mem using r zp zd by blast
  then show "\<exists>u\<in>set (load_data trips zones). raw_of u = r"
    using assemble_base(9) by blast
next
  show "length (cleaning trips) \<le> length (load_data trips zones)"
    by (rule load_data_length)
next
  fix u assume u: "u \<in> set (load_data trips zones)"
    and n: "PULocationID u \<notin> LocationID ` set zones"
  from u obtain r zp zd where "joined_with (PULocationID r) zones zp" "u = assemble r zp zd"
    unfolding load_data_mem by blast
  with n have "zp = None" "u = assemble r zp zd"
    using joined_with_no_match by (auto simp: assemble_base)
  then show "pickup_zone u = None" "pickup_borough u = None"
    by (simp_all add: assemble_derived)
next
  fix u assume u: "u \<in> set (load_data trips zones)"
    and n: "DOLocationID u \<notin> LocationID ` set zones"
  from u obtain r zp zd where "joined_with (DOLocationID r) zones zd" "u = assemble r zp zd"
    unfolding load_data_mem by blast
  with n have "zd = None" "u = assemble r zp zd"
    using joined_with_no_match by (auto simp: assemble_base)
  then show "dropoff_zone u = None" "dropoff_borough u = None"
    by (simp_all add: assemble_derived)
qed

theorem left_join_keeps_rows_witness:
  "admitted trip_C \<and> DOLocationID trip_C = Some 999 \<and>
   Some 999 \<notin> LocationID ` set [zone_JFK, zone_Clinton] \<and>
   map raw_of (load_data [trip_A, trip_B, trip_C] [zone_JFK, zone_Clinton]) = [trip_C] \<and>
   map dropoff_zone (load_data [trip_A, trip_B, trip_C] [zone_JFK, zone_Clinton]) = [None] \<and>
   map dropoff_borough (load_data [trip_A, trip_B, trip_C] [zone_JFK, zone_Clinton]) = [None] \<and>
   map pickup_zone (load_data [trip_A, trip_B, trip_C] [zone_JFK, zone_Clinton]) =
     [Some ''JFK Airport'']"
  using left_join_keeps_rows [of "[trip_A, trip_B, trip_C]" "[zone_JFK, zone_Clinton]"]
  by (simp add: load_data_example assemble_base assemble_derived scenario_admitted
        trip_C_fields zone_fields)

text \<open>
  C6. The speed of a row is absent when its duration is zero, and is
  \<open>distance / (duration / 60)\<close> when its duration is positive; every row of
  the unified table has the speed that this expression gives.
\<close>
theorem speed_guard:
  "speed_expr distance (Some 0) = None \<and>
   (0 < m \<longrightarrow> speed_expr (Some x) (Some m) = Some (x / (m / 60))) \<and>
   (\<forall>u\<in>set (load_data trips zones).
      trip_speed_mph u = speed_expr (trip_distance u) (trip_duration_minutes u))"
  by (auto simp: speed_expr_def load_data_mem assemble_derived assemble_base)

theorem speed_guard_witness:
  "(0::real) < 15 \<and> speed_expr (Some 2.5) (Some 15) = Some (2.5 / (15 / 60)) \<and>
   map trip_duration_minutes (load_data [trip_Z] []) = [Some 0] \<and>
   map trip_speed_mph (load_data [trip_Z] []) = [None] \<and>
   map trip_duration_minutes (load_data [trip_A, trip_B, trip_C] [zone_JFK, zone_Clinton]) =
     [Some 15] \<and>
   map trip_speed_mph (load_data [trip_A, trip_B, trip_C] [zone_JFK, zone_Clinton]) = [Some 10]"
  using speed_guard [of "Some 0.1" 15 "2.5" "[trip_Z]" "[]"]
    speed_guard [of "Some 0.1" 15 "2.5" "[trip_A, trip_B, trip_C]" "[zone_JFK, zone_Clinton]"]
  by (simp add: load_data_example load_data_example_Z assemble_derived assemble_base
        trip_C_fields trip_Z_fields scenario_values example_Z_values)




section \<open>The filters, the fetcher and the render cycle: claims\<close>

lemma isin_set: "set xs = set ys \<Longrightarrow> isin v xs = isin v ys"
  by (simp add: isin_def split: option.splits)

lemma mask_empty_selection:
  assumes "set sel = set (all_payment_types df_full)"
  shows "mask_row df_full dates hours [] = mask_row df_full dates hours sel"
proof (rule ext)
  fix r :: unified
  have "isin (payment_label r) (all_payment_types df_full) = isin (payment_label r) sel"
    using isin_set [OF assms, of "payment_label r"] by simp
  then show "mask_row df_full dates hours [] r = mask_row df_full dates hours sel r"
    by (simp add: mask_row_def)
qed

text \<open>
  C4. The filter step with no payment label selected returns what it returns with
  every payment label of the table selected, in any order, for every table, date
  range and hour range.
\<close>
theorem empty_selection_is_all:
  "set selected = set (all_payment_types df_full) \<Longrightarrow>
   apply_filters df_full date_range hour_range [] =
   apply_filters df_full date_range hour_range selected"
proof -
  assume a: "set selected = set (all_payment_types df_full)"
  show ?thesis
    unfolding apply_filters_def mask_empty_selection [OF a] by (rule refl)
qed

lemma example_labels:
  "all_payment_types [assemble trip_C (Some zone_JFK) None] = [''Credit Card'']"
  by (simp add: all_payment_types_def assemble_derived trip_C_fields
        payment_label_expr_def payment_get_def PAYMENT_MAP_def)

lemma example_mask:
  "mask_row [assemble trip_C (Some zone_JFK) None] (19727, 19727) (0, 23) []
     (assemble trip_C (Some zone_JFK) None)"
  by (simp add: mask_row_def example_labels isin_def assemble_derived assemble_base trip_C_fields
        payment_label_expr_def payment_get_def PAYMENT_MAP_def date_of_def dt_hour_def)

theorem empty_selection_is_all_witness:
  "set [''Credit Card''] =
     set (all_payment_types (load_data [trip_A, trip_B, trip_C] [zone_JFK, zone_Clinton])) \<and>
   apply_filters (load_data [trip_A, trip_B, trip_C] [zone_JFK, zone_Clinton])
     (DateSeq [19727, 19727]) (0, 23) [''Credit Card''] =
     Inr (load_data [trip_A, trip_B, trip_C] [zone_JFK, zone_Clinton])"
  using empty_selection_is_all [of "[''Credit Card'']"
      "load_data [trip_A, trip_B, trip_C] [zone_JFK, zone_Clinton]" "DateSeq [19727, 19727]" "(0, 23)"]
  by (simp add: load_data_example example_labels apply_filters_def date_bounds_def example_mask)

lemma concat_iter_content: "0 < n \<Longrightarrow> concat (iter_content n bs) = bs"
proof (induction n bs rule: iter_content.induct)
  case (1 n bs)
  show ?case
  proof (cases "bs = []")
    case True
    then show ?thesis by (simp add: iter_content.simps)
  next
    case False
    with 1 have "concat (iter_content n (drop n bs)) = drop n bs" by simp
    with False 1(2) show ?thesis
      by (subst iter_content.simps) simp
  qed
qed

lemma write_chunk_file:
  "nodes w path = Some (File bs) \<Longrightarrow>
   nodes (write_chunk path c w) path = Some (File (bs @ c)) \<and>
   requests (write_chunk path c w) = requests w"
  by (simp add: write_chunk_def)

lemma write_chunks_file:
  "nodes w path = Some (File bs) \<Longrightarrow>
   nodes (write_chunks path cs w) path = Some (File (bs @ concat cs)) \<and>
   requests (write_chunks path cs w) = requests w"
proof (induction cs arbitrary: w bs)
  case Nil
  then show ?case by simp
next
  case (Cons c cs)
  from write_chunk_file [OF Cons.prems, of c]
  have a: "nodes (write_chunk path c w) path = Some (File (bs @ c))"
    and b: "requests (write_chunk path c w) = requests w" by simp_all
  from Cons.IH [OF a] b show ?case by simp
qed

lemma makedirs_requests: "makedirs d w = Inr w1 \<Longrightarrow> requests w1 = requests w"
  by (auto simp: makedirs_def split: if_splits option.splits node.splits)

lemma open_wb_file:
  "open_wb path w = Inr w3 \<Longrightarrow> nodes w3 path = Some (File []) \<and> requests w3 = requests w"
  by (auto simp: open_wb_def split: if_splits option.splits node.splits)

text \<open>
  C7. When the destination exists, the fetcher returns at once: the world, with its
  files and its record of requests, is as before. When it does not exist and the
  fetcher returns normally, the transport answered with a complete body, the
  destination file holds exactly that body, and the transport was invoked once.
\<close>
theorem download_only_if_missing:
  "(exists_path w path \<longrightarrow> download_if_missing net url path w = (None, w)) \<and>
   (\<not> exists_path w path \<and> download_if_missing net url path w = (None, w') \<longrightarrow>
      (\<exists>status body. net url = Response status body None \<and>
                      nodes w' path = Some (File body)) \<and>
      requests w' = requests w @ [url])"
proof -
  have present: "download_if_missing net url path w = (None, w)" if "exists_path w path"
    using that by (simp add: download_if_missing_def)
  have missing: "(\<exists>status body. net url = Response status body None \<and>
                      nodes w' path = Some (File body)) \<and>
      requests w' = requests w @ [url]"
    if n: "\<not> exists_path w path" and d: "download_if_missing net url path w = (None, w')"
  proof -
    from n d obtain w1 where w1: "makedirs (dirname path) w = Inr w1"
      by (auto simp: download_if_missing_def split: sum.splits)
    let ?w2 = "w1\<lparr>requests := requests w1 @ [url]\<rparr>"
    from n d w1 obtain status body where r: "net url = Response status body None"
      by (auto simp: download_if_missing_def Let_def
          split: response.splits if_splits sum.splits option.splits)
    from n d w1 r obtain w3 where w3: "open_wb path ?w2 = Inr w3"
      by (auto simp: download_if_missing_def Let_def split: if_splits sum.splits)
    from n d w1 r w3 have w': "w' = write_chunks path (iter_content 1048576 body) w3"
      by (auto simp: download_if_missing_def Let_def split: if_splits)
    from open_wb_file [OF w3] have f: "nodes w3 path = Some (File [])"
      and q: "requests w3 = requests ?w2" by simp_all
    from write_chunks_file [OF f, of "iter_content 1048576 body"]
    have "nodes w' path = Some (File body)" and "requests w' = requests w3"
      by (simp_all add: w' concat_iter_content)
    with r q makedirs_requests [OF w1] show ?thesis by simp
  qed
  from present missing show ?thesis by blast
qed

lemma dirname_example: "dirname ''data/raw/trips.parquet'' = ''data/raw''"
  by (simp add: dirname_def)

lemma download_example:
  "fst (download_if_missing net0 ''u'' ''data/raw/trips.parquet'' world0) = None"
  by (simp add: download_if_missing_def exists_path_def world0_def net0_def dirname_example
        makedirs_def open_wb_def Let_def)

theorem download_only_if_missing_witness:
  "exists_path world0 ''data/raw/zones.csv'' \<and>
   download_if_missing net0 ''u'' ''data/raw/zones.csv'' world0 = (None, world0) \<and>
   \<not> exists_path world0 ''data/raw/trips.parquet'' \<and>
   fst (download_if_missing net0 ''u'' ''data/raw/trips.parquet'' world0) = None \<and>
   nodes (snd (download_if_missing net0 ''u'' ''data/raw/trips.parquet'' world0))
     ''data/raw/trips.parquet'' = Some (File [72, 105]) \<and>
   requests (snd (download_if_missing net0 ''u'' ''data/raw/trips.parquet'' world0)) = [''u'']"
proof -
  have e: "exists_path world0 ''data/raw/zones.csv''"
    and n: "\<not> exists_path world0 ''data/raw/trips.parquet''"
    by (simp_all add: exists_path_def world0_def)
  obtain w' where w': "download_if_missing net0 ''u'' ''data/raw/trips.parquet'' world0 = (None, w')"
    using download_example by (cases "download_if_missing net0 ''u'' ''data/raw/trips.parquet'' world0") simp
  from download_only_if_missing [of world0 "''data/raw/zones.csv''" net0 "''u''" world0] e
  have a: "download_if_missing net0 ''u'' ''data/raw/zones.csv'' world0 = (None, world0)" by simp
  from download_only_if_missing [of world0 "''data/raw/trips.parquet''" net0 "''u''" w'] n w'
  have b: "nodes w' ''data/raw/trips.parquet'' = Some (File [72, 105])" "requests w' = [''u'']"
    by (simp_all add: net0_def world0_def)
  from e n a b w' show ?thesis by simp
qed

lemma alloc_store: "alloc x s = (a, s') \<Longrightarrow> store s' = store s @ [x] \<and> page s' = page s"
  by (auto simp: alloc_def)

lemma emit_store: "store (emit es s) = store s" "page (emit es s) = page s @ es"
  by (simp_all add: emit_def)

lemma render_charts_store:
  "store (render_charts df s) =
     store s @ [Frame (clip_rows df), Series (map trip_distance (clip_rows df))]"
  by (simp add: render_charts_def alloc_def emit_def Let_def)

text \<open>
  C8. When the filters select no row, the run adds the one warning to the page and
  stops there: it raises no error and shows no chart.
\<close>
theorem empty_result_stops:
  "get_frame s a = Some df_full \<Longrightarrow>
   apply_filters df_full date_range hour_range selected = Inr [] \<Longrightarrow>
   \<exists>s'. render_cycle s a date_range hour_range selected = Inr (Stopped, s') \<and>
        page s' = page s @
          [Warning ''No trips match the current filters. Please adjust your sidebar selections.''] \<and>
        no_chart (drop (length (page s)) (page s'))"
  by (simp add: render_cycle_def alloc_def emit_def no_chart_def)

lemma example_filtered_out:
  "apply_filters (load_data [trip_A, trip_B, trip_C] [zone_JFK, zone_Clinton])
     (DateSeq [19727, 19727]) (5, 23) [] = Inr []"
  by (simp add: load_data_example apply_filters_def date_bounds_def mask_row_def
        assemble_derived assemble_base trip_C_fields dt_hour_def)

theorem empty_result_stops_witness:
  "get_frame session0 0 = Some (load_data [trip_A, trip_B, trip_C] [zone_JFK, zone_Clinton]) \<and>
   apply_filters (load_data [trip_A, trip_B, trip_C] [zone_JFK, zone_Clinton])
     (DateSeq [19727, 19727]) (5, 23) [] = Inr [] \<and>
   (\<exists>s'. render_cycle session0 0 (DateSeq [19727, 19727]) (5, 23) [] = Inr (Stopped, s') \<and>
         page s' =
          [Warning ''No trips match the current filters. Please adjust your sidebar selections.''])"
proof -
  have g: "get_frame session0 0 =
      Some (load_data [trip_A, trip_B, trip_C] [zone_JFK, zone_Clinton])"
    by (simp add: get_frame_def session0_def)
  have p: "page session0 = []" by (simp add: session0_def)
  from empty_result_stops [OF g example_filtered_out] g example_filtered_out p
  show ?thesis by auto
qed

text \<open>
  C9. A run of the script leaves every object that the store held before it as it
  was, \<open>df_full\<close> among them: the filtered frame is a new object.
\<close>
theorem base_table_unchanged:
  "render_cycle s a date_range hour_range selected = Inr (oc, s') \<Longrightarrow>
   take (length (store s)) (store s') = store s \<and>
   length (store s) < length (store s') \<and>
   get_frame s' a = get_frame s a"
proof -
  assume r: "render_cycle s a date_range hour_range selected = Inr (oc, s')"
  then obtain df_full where g: "get_frame s a = Some df_full"
    by (auto simp: render_cycle_def split: option.splits)
  from r g obtain rows where
    f: "apply_filters df_full date_range hour_range selected = Inr rows"
    by (auto simp: render_cycle_def split: sum.splits)
  from g have al: "a < length (store s)"
    by (auto simp: get_frame_def split: if_splits)
  from r g f have "\<exists>ys. ys \<noteq> [] \<and> store s' = store s @ ys"
    by (auto simp: render_cycle_def alloc_def emit_def render_charts_store split: if_splits)
  then obtain ys where ys: "ys \<noteq> []" "store s' = store s @ ys" by blast
  then show ?thesis using al by (simp add: get_frame_def nth_append)
qed

theorem base_table_unchanged_witness:
  "(\<exists>s'. render_cycle session0 0 (DateSeq [19727, 19727]) (0, 23) [] = Inr (Finished, s') \<and>
         get_frame s' 0 = Some (load_data [trip_A, trip_B, trip_C] [zone_JFK, zone_Clinton]) \<and>
         take 1 (store s') = store session0)"
proof -
  have g: "get_frame session0 0 =
      Some (load_data [trip_A, trip_B, trip_C] [zone_JFK, zone_Clinton])"
    by (simp add: get_frame_def session0_def)
  have f: "apply_filters (load_data [trip_A, trip_B, trip_C] [zone_JFK, zone_Clinton])
      (DateSeq [19727, 19727]) (0, 23) [] =
      Inr (load_data [trip_A, trip_B, trip_C] [zone_JFK, zone_Clinton])"
    by (simp add: load_data_example apply_filters_def date_bounds_def example_mask)
  have ne: "load_data [trip_A, trip_B, trip_C] [zone_JFK, zone_Clinton] \<noteq> []"
    by (simp add: load_data_example)
  obtain s' where s': "render_cycle session0 0 (DateSeq [19727, 19727]) (0, 23) [] =
      Inr (Finished, s')"
    by (simp add: render_cycle_def g f alloc_def Let_def ne)
  from base_table_unchanged [OF s'] g have
    "get_frame s' 0 = Some (load_data [trip_A, trip_B, trip_C] [zone_JFK, zone_Clinton])"
    "take 1 (store s') = store session0"
    by (simp_all add: session0_def)
  with s' show ?thesis by blast
qed

end
